theory Spec2Isabelle
  imports Main "HOL-Library.Word" "HOL-Library.Sublist"
begin

section \<open>JavaScript strings\<close>

text \<open>
  A JavaScript string is a sequence of UTF-16 code units. The literals of the source are
  all ASCII and are written with \<open>js\<close>.
\<close>

type_synonym js_string = "16 word list"

definition js :: "string \<Rightarrow> js_string" where
  "js = map of_char"

text \<open>
  \<open>String.prototype.trim\<close> removes the ECMAScript WhiteSpace and LineTerminator code
  points from both ends: TAB, LF, VT, FF, CR, SP, NBSP, the Unicode space separators
  (U+1680, U+2000 to U+200A, U+202F, U+205F, U+3000), LS, PS and U+FEFF.
\<close>

definition js_whitespace :: "16 word \<Rightarrow> bool" where
  "js_whitespace c \<longleftrightarrow>
     c \<in> {0x09, 0x0A, 0x0B, 0x0C, 0x0D, 0x20, 0xA0, 0x1680, 0x2028, 0x2029,
          0x202F, 0x205F, 0x3000, 0xFEFF}
     \<or> (0x2000 \<le> c \<and> c \<le> 0x200A)"

definition trim :: "js_string \<Rightarrow> js_string" where
  "trim t = rev (dropWhile js_whitespace (rev (dropWhile js_whitespace t)))"

text \<open>
  \<open>toLowerCase\<close> on Basic Latin and Latin-1: the letters \<open>A\<close> to \<open>Z\<close> and U+00C0 to
  U+00DE (but for the multiplication sign U+00D7) go to the code unit 32 above. The rest
  of the Unicode case tables of the runtime is not part of the model: other code units
  are left as they are, and the statements below that compare labels use ASCII labels
  only.
\<close>

definition toLowerCase :: "js_string \<Rightarrow> js_string" where
  "toLowerCase =
     map (\<lambda>c. if (0x41 \<le> c \<and> c \<le> 0x5A) \<or> (0xC0 \<le> c \<and> c \<le> 0xDE \<and> c \<noteq> 0xD7)
              then c + 0x20 else c)"

subsection \<open>encodeURIComponent\<close>

text \<open>
  Letters, digits and \<open>- _ . ! ~ * ' ( )\<close> are kept; every other code point is written as
  the percent-escaped bytes of its UTF-8 encoding, and a lone surrogate raises URIError.
\<close>

datatype exn = JsError js_string | URIError

definition uri_unreserved :: "16 word \<Rightarrow> bool" where
  "uri_unreserved c \<longleftrightarrow>
     (0x41 \<le> c \<and> c \<le> 0x5A) \<or> (0x61 \<le> c \<and> c \<le> 0x7A) \<or> (0x30 \<le> c \<and> c \<le> 0x39)
     \<or> c \<in> {0x2D, 0x5F, 0x2E, 0x21, 0x7E, 0x2A, 0x27, 0x28, 0x29}"

definition hex_digit :: "nat \<Rightarrow> 16 word" where
  "hex_digit n = (if n < 10 then 0x30 + of_nat n else 0x41 + of_nat (n - 10))"

definition percent_byte :: "nat \<Rightarrow> js_string" where
  "percent_byte b = [0x25, hex_digit (b div 16), hex_digit (b mod 16)]"

definition utf8_bytes :: "nat \<Rightarrow> nat list" where
  "utf8_bytes cp =
     (if cp < 0x80 then [cp]
      else if cp < 0x800 then [0xC0 + cp div 64, 0x80 + cp mod 64]
      else if cp < 0x10000 then
        [0xE0 + cp div 4096, 0x80 + (cp div 64) mod 64, 0x80 + cp mod 64]
      else
        [0xF0 + cp div 262144, 0x80 + (cp div 4096) mod 64,
         0x80 + (cp div 64) mod 64, 0x80 + cp mod 64])"

definition escape_code_point :: "nat \<Rightarrow> js_string" where
  "escape_code_point cp = concat (map percent_byte (utf8_bytes cp))"

definition high_surrogate :: "16 word \<Rightarrow> bool" where
  "high_surrogate c \<longleftrightarrow> 0xD800 \<le> c \<and> c \<le> 0xDBFF"

definition low_surrogate :: "16 word \<Rightarrow> bool" where
  "low_surrogate c \<longleftrightarrow> 0xDC00 \<le> c \<and> c \<le> 0xDFFF"

fun encodeURIComponent :: "js_string \<Rightarrow> js_string option" where
  "encodeURIComponent [] = Some []"
| "encodeURIComponent [c] =
     (if uri_unreserved c then Some [c]
      else if low_surrogate c \<or> high_surrogate c then None
      else Some (escape_code_point (unat c)))"
| "encodeURIComponent (c # d # ds) =
     (if uri_unreserved c then map_option ((#) c) (encodeURIComponent (d # ds))
      else if low_surrogate c then None
      else if high_surrogate c then
        (if low_surrogate d then
           map_option
             ((@) (escape_code_point
                     ((unat c - 0xD800) * 0x400 + (unat d - 0xDC00) + 0x10000)))
             (encodeURIComponent ds)
         else None)
      else map_option ((@) (escape_code_point (unat c))) (encodeURIComponent (d # ds)))"

section \<open>The classification client (services/geminiService.ts)\<close>

text \<open>
  Loading the module reads \<open>process.env.API_KEY\<close> (\<open>None\<close> is \<open>undefined\<close>) and throws
  when it is falsy, that is undefined or the empty string; otherwise the client \<open>ai\<close> is
  built from the key.
\<close>

definition load_geminiService :: "js_string option \<Rightarrow> exn + js_string" where
  "load_geminiService API_KEY =
     (case API_KEY of
        None \<Rightarrow> Inl (JsError (js ''API_KEY environment variable not set''))
      | Some k \<Rightarrow>
          if k = [] then Inl (JsError (js ''API_KEY environment variable not set''))
          else Inr k)"

text \<open>
  What \<open>ai.models.generateContent\<close> does is the environment's choice: the promise is
  rejected, or it is fulfilled with a response whose \<open>text\<close> is a string or
  \<open>undefined\<close>.
\<close>

datatype generate_outcome = Rejected | Response "js_string option"

text \<open>
  The regular expression \<open>/[.,/#!$%^&*;:{}=\-_`~()]/g\<close> is one character class; the
  global replace by the empty string drops every code unit of the class and keeps the
  others in order.
\<close>

definition sanitized_class :: "16 word list" where
  "sanitized_class = js ''.,/#!$%^&*;:{}=-_`~()''"

fun replace_class :: "js_string \<Rightarrow> js_string" where
  "replace_class [] = []"
| "replace_class (c # cs) =
     (if c \<in> set sanitized_class then replace_class cs else c # replace_class cs)"

text \<open>
  \<open>detectColorFromImage\<close>: everything is inside one \<open>try\<close>, so a rejected call and the
  TypeError of \<open>undefined.trim()\<close> both end in the same thrown Error.
\<close>

definition detectColorFromImage :: "generate_outcome \<Rightarrow> exn + js_string" where
  "detectColorFromImage outcome =
     (case outcome of
        Response (Some text) \<Rightarrow> Inr (replace_class (trim text))
      | _ \<Rightarrow> Inl (JsError (js ''Failed to get response from AI model.'')))"

section \<open>The session controller (App.tsx)\<close>

subsection \<open>State\<close>

datatype Status = Ready | Initializing | Detecting | Error | Stopped

datatype FacingMode = User | Environment

text \<open>
  A media stream is the list of its tracks, each named by a number. The calls the
  component makes on the browser and on the remote service are recorded, in order, in a
  trace.
\<close>

type_synonym MediaStream = "nat list"

datatype action =
    TrackStop nat
  | ClearInterval nat
  | GetUserMedia FacingMode
  | VideoPlay
  | SetInterval nat
  | DrawImage
  | GenerateContent js_string
  | AudioLoad
  | AudioPlay js_string

text \<open>
  \<open>captureAndDetect\<close> is built by \<open>useCallback\<close> from the values of one render (lines
  60 to 91): what a given function object reads as \<open>isLoading\<close> and \<open>detectedColor\<close> are
  the constants of the render that built it, and a later render builds another function
  object. In the model a function object is therefore the pair of the values it closed
  over. \<open>startCamera\<close> closes over the \<open>captureAndDetect\<close> of its own render and hands it
  to \<open>setInterval\<close> (line 107); the timer then calls that one object every time it fires,
  whatever was rendered since.
\<close>

record Closure =
  cap_isLoading :: bool
  cap_detectedColor :: js_string

text \<open>
  The state of the mounted component: the eight \<open>useState\<close> cells, the four refs, and the
  part of the browser the component acts on. \<open>videoRef\<close> is \<open>None\<close> for a null ref,
  \<open>Some None\<close> for a video element without \<open>srcObject\<close>; \<open>canvasRef\<close> is \<open>None\<close> for a
  null ref and \<open>Some b\<close> for a canvas whose \<open>getContext('2d')\<close> gives a context exactly
  when \<open>b\<close>; \<open>audioRef\<close> tells whether the audio element is there. \<open>intervals\<close> are the
  active \<open>window.setInterval\<close> timers with the callback each was given, \<open>ended\<close> the
  tracks that were stopped, and the three pending lists the promises not yet settled, each
  with the function object its continuation will use.
\<close>

record App =
  isCameraOn :: bool
  facingMode :: FacingMode
  status :: Status
  detectedColor :: js_string
  isLoading :: bool
  error :: "js_string option"
  audioUrl :: js_string
  colorUpdateKey :: nat
  videoRef :: "MediaStream option option"
  canvasRef :: "bool option"
  detectionIntervalRef :: "nat option"
  audioRef :: bool
  has_getUserMedia :: bool
  intervals :: "(nat \<times> Closure) list"
  next_handle :: nat
  ended :: "nat set"
  pending_getUserMedia :: "Closure list"
  pending_play :: "Closure list"
  pending_generate :: "Closure list"
  trace :: "action list"

definition closure_of :: "App \<Rightarrow> Closure" where
  "closure_of r = \<lparr>cap_isLoading = isLoading r, cap_detectedColor = detectedColor r\<rparr>"

text \<open>
  The first render: the initial values of the \<open>useState\<close> and \<open>useRef\<close> calls, with the
  three elements of the returned tree attached to their refs. Whether the browser has
  \<open>navigator.mediaDevices.getUserMedia\<close> and whether the canvas gives a 2d context are
  parameters.
\<close>

definition initial :: "bool \<Rightarrow> bool \<Rightarrow> App" where
  "initial media ctx =
     \<lparr>isCameraOn = False, facingMode = Environment, status = Ready, detectedColor = [],
      isLoading = False, error = None, audioUrl = [], colorUpdateKey = 0,
      videoRef = Some None, canvasRef = Some ctx, detectionIntervalRef = None,
      audioRef = True, has_getUserMedia = media, intervals = [], next_handle = 1,
      ended = {}, pending_getUserMedia = [], pending_play = [], pending_generate = [],
      trace = []\<rparr>"

subsection \<open>The callbacks\<close>

definition tts_prefix :: js_string where
  "tts_prefix = js ''https://translate.google.com/translate_tts?ie=UTF-8&tl=en&client=tw-ob&q=''"

definition speak :: "js_string \<Rightarrow> App \<Rightarrow> exn + App" where
  "speak text s =
     (if text = [] then Inr s
      else case encodeURIComponent text of
             None \<Rightarrow> Inl URIError
           | Some q \<Rightarrow> Inr (s\<lparr>audioUrl := tts_prefix @ q\<rparr>))"

text \<open>
  \<open>stopCameraStream\<close>. \<open>clearInterval\<close> removes the timer with that handle; the test of
  \<open>detectionIntervalRef.current\<close> is a truthiness test, false for \<open>null\<close> and for 0.
\<close>

definition stopCameraStream :: "App \<Rightarrow> App" where
  "stopCameraStream s =
     (let s1 = (case videoRef s of
                  Some (Some stream) \<Rightarrow>
                    s\<lparr>ended := ended s \<union> set stream,
                      trace := trace s @ map TrackStop stream,
                      videoRef := Some None\<rparr>
                | _ \<Rightarrow> s)
      in case detectionIntervalRef s1 of
           None \<Rightarrow> s1
         | Some h \<Rightarrow>
             if h = 0 then s1
             else s1\<lparr>intervals := filter (\<lambda>(i, c). i \<noteq> h) (intervals s1),
                     trace := trace s1 @ [ClearInterval h],
                     detectionIntervalRef := None\<rparr>)"

text \<open>
  \<open>captureAndDetect\<close> up to its \<open>await\<close>, for the function object \<open>c\<close>. \<open>img\<close> is what
  \<open>toDataURL\<close> gives after the header is cut off.
\<close>

definition captureAndDetect :: "Closure \<Rightarrow> js_string \<Rightarrow> App \<Rightarrow> App" where
  "captureAndDetect c img s =
     (if cap_isLoading c \<or> videoRef s = None \<or> canvasRef s = None then s
      else
        let s1 = s\<lparr>isLoading := True, status := Detecting\<rparr>
        in if canvasRef s1 = Some True then
             s1\<lparr>trace := trace s1 @ [DrawImage, GenerateContent img],
                pending_generate := pending_generate s1 @ [c]\<rparr>
           else s1\<lparr>isLoading := False\<rparr>)"

text \<open>The rest of \<open>captureAndDetect\<close>, run when the remote call has settled.\<close>

definition captureAndDetect_settled :: "Closure \<Rightarrow> generate_outcome \<Rightarrow> App \<Rightarrow> App" where
  "captureAndDetect_settled c outcome s =
     (case detectColorFromImage outcome of
        Inr color \<Rightarrow>
          (let s1 = (if color \<noteq> [] \<and> toLowerCase color \<noteq> toLowerCase (cap_detectedColor c)
                     then s\<lparr>detectedColor := color\<rparr> else s)
           in s1\<lparr>error := None, isLoading := False\<rparr>)
      | Inl err \<Rightarrow>
          s\<lparr>error := Some (js ''Could not detect color. Please try again.''),
            status := Error, isLoading := False\<rparr>)"

text \<open>
  \<open>startCamera\<close> of the render \<open>r\<close>, up to \<open>await getUserMedia\<close>; the function closes
  over \<open>facingMode\<close> and \<open>captureAndDetect\<close> of that render.
\<close>

definition startCamera :: "App \<Rightarrow> App \<Rightarrow> App" where
  "startCamera r s =
     (let s1 = stopCameraStream s;
          s2 = s1\<lparr>status := Initializing, error := None\<rparr>
      in if has_getUserMedia s2 then
           s2\<lparr>trace := trace s2 @ [GetUserMedia (facingMode r)],
              pending_getUserMedia := pending_getUserMedia s2 @ [closure_of r]\<rparr>
         else
           s2\<lparr>error := Some (js ''Camera not supported by this browser.''),
              status := Error, isCameraOn := False\<rparr>)"

text \<open>The \<open>catch\<close> block of \<open>startCamera\<close>: \<open>getUserMedia\<close> or \<open>play\<close> was rejected.\<close>

definition startCamera_catch :: "App \<Rightarrow> App" where
  "startCamera_catch s =
     s\<lparr>error := Some (js ''Camera access denied. Please allow camera permissions in your browser settings.''),
       status := Error, isCameraOn := False\<rparr>"

text \<open>\<open>startCamera\<close> from the stream it was given up to \<open>await play()\<close>.\<close>

definition startCamera_stream :: "Closure \<Rightarrow> MediaStream \<Rightarrow> App \<Rightarrow> App" where
  "startCamera_stream c stream s =
     (case videoRef s of
        None \<Rightarrow> s
      | Some old \<Rightarrow>
          s\<lparr>videoRef := Some (Some stream), trace := trace s @ [VideoPlay],
            pending_play := pending_play s @ [c]\<rparr>)"

text \<open>\<open>startCamera\<close> after \<open>play()\<close>: the timer is given the function object \<open>c\<close>.\<close>

definition startCamera_playing :: "Closure \<Rightarrow> App \<Rightarrow> App" where
  "startCamera_playing c s =
     s\<lparr>status := Detecting,
       intervals := intervals s @ [(next_handle s, c)],
       detectionIntervalRef := Some (next_handle s),
       trace := trace s @ [SetInterval (next_handle s)],
       next_handle := Suc (next_handle s)\<rparr>"

definition handleToggleCamera :: "App \<Rightarrow> App" where
  "handleToggleCamera s = s\<lparr>isCameraOn := \<not> isCameraOn s, detectedColor := []\<rparr>"

definition handleSwitchCamera :: "App \<Rightarrow> App" where
  "handleSwitchCamera s =
     (if isCameraOn s
      then s\<lparr>facingMode := (if facingMode s = User then Environment else User)\<rparr>
      else s)"

subsection \<open>Effects and rendering\<close>

text \<open>
  The state set by one callback (an event handler, a timer callback, the continuation of
  a promise) is rendered once, with all its updates, and the effects of that render run
  after it, as React batches them; the callbacks above return that state.

  The three \<open>useEffect\<close> bodies, for the render \<open>r\<close> whose values they close over, acting
  on the state \<open>s\<close>. An exception that leaves \<open>speak\<close> leaves the effect. The camera
  effect calls the \<open>startCamera\<close> of the render it belongs to, and it runs only when
  \<open>isCameraOn\<close> or \<open>facingMode\<close> has changed (line 134).
\<close>

definition audio_effect :: "App \<Rightarrow> App \<Rightarrow> App" where
  "audio_effect r s =
     (if audioUrl r \<noteq> [] \<and> audioRef s
      then s\<lparr>trace := trace s @ [AudioLoad, AudioPlay (audioUrl r)]\<rparr>
      else s)"

definition color_effect :: "App \<Rightarrow> App \<Rightarrow> exn + App" where
  "color_effect r s =
     (if detectedColor r \<noteq> [] then
        (case speak (detectedColor r) s of
           Inl e \<Rightarrow> Inl e
         | Inr s1 \<Rightarrow> Inr (s1\<lparr>colorUpdateKey := Suc (colorUpdateKey s1)\<rparr>))
      else Inr s)"

definition camera_effect :: "App \<Rightarrow> App \<Rightarrow> App" where
  "camera_effect r s =
     (if isCameraOn r then startCamera r s
      else (stopCameraStream s)\<lparr>status := Stopped\<rparr>)"

text \<open>
  One commit of the render \<open>r\<close> after the render \<open>prev\<close> (\<open>None\<close> at mount): an effect runs
  when one of its dependencies differs from the previous render's, and every effect runs at
  mount. The cleanup of the camera effect, \<open>stopCameraStream\<close>, runs first, then the
  bodies in the order of the source. The dependency lists are \<open>[audioUrl]\<close>,
  \<open>[detectedColor, speak]\<close> (\<open>speak\<close> never changes) and \<open>[isCameraOn, facingMode]\<close>.
\<close>

definition camera_deps_changed :: "App option \<Rightarrow> App \<Rightarrow> bool" where
  "camera_deps_changed prev r =
     (case prev of
        None \<Rightarrow> True
      | Some p \<Rightarrow> isCameraOn p \<noteq> isCameraOn r \<or> facingMode p \<noteq> facingMode r)"

definition effects_round :: "App option \<Rightarrow> App \<Rightarrow> exn + App" where
  "effects_round prev r =
     (let s0 = (if prev \<noteq> None \<and> camera_deps_changed prev r then stopCameraStream r else r);
          s1 = (if (case prev of None \<Rightarrow> True | Some p \<Rightarrow> audioUrl p \<noteq> audioUrl r)
                then audio_effect r s0 else s0)
      in case (if (case prev of None \<Rightarrow> True | Some p \<Rightarrow> detectedColor p \<noteq> detectedColor r)
               then color_effect r s1 else Inr s1) of
           Inl e \<Rightarrow> Inl e
         | Inr s2 \<Rightarrow>
             Inr (if camera_deps_changed prev r then camera_effect r s2 else s2))"

text \<open>
  State set by an effect is rendered and committed in turn. \<open>render_loop n\<close> runs up to
  \<open>n\<close> commits; \<open>commit\<close> runs two, after which no dependency differs any more
  (\<open>render_loop_stable\<close> below).
\<close>

fun render_loop :: "nat \<Rightarrow> App option \<Rightarrow> App \<Rightarrow> exn + App" where
  "render_loop 0 prev r = Inr r"
| "render_loop (Suc n) prev r =
     (case effects_round prev r of
        Inl e \<Rightarrow> Inl e
      | Inr s \<Rightarrow> render_loop n (Some r) s)"

definition commit :: "App \<Rightarrow> App \<Rightarrow> exn + App" where
  "commit prev s = render_loop 2 (Some prev) s"

definition mount :: "bool \<Rightarrow> bool \<Rightarrow> exn + App" where
  "mount media ctx = render_loop 2 None (initial media ctx)"

text \<open>
  Starting the application: \<open>App.tsx\<close> imports the service module, so the component is
  mounted only when that module has loaded.
\<close>

definition startup :: "js_string option \<Rightarrow> bool \<Rightarrow> bool \<Rightarrow> exn + App" where
  "startup API_KEY media ctx =
     (case load_geminiService API_KEY of
        Inl e \<Rightarrow> Inl e
      | Inr ai \<Rightarrow> mount media ctx)"

subsection \<open>Events\<close>

text \<open>
  What can happen to the mounted component: the two buttons, the settling of one of the
  pending promises (named by its position in the pending list), and the firing of a timer
  (named by its handle, with the image the canvas yields then).
\<close>

datatype event =
    ToggleCamera
  | SwitchCamera
  | GetUserMediaResolves nat MediaStream
  | GetUserMediaRejects nat
  | PlayResolves nat
  | PlayRejects nat
  | IntervalFires nat js_string
  | GenerateContentSettles nat generate_outcome

datatype fault = NotEnabled | Uncaught exn

definition remove_nth :: "nat \<Rightarrow> 'a list \<Rightarrow> 'a list" where
  "remove_nth i xs = take i xs @ drop (Suc i) xs"

definition committed :: "App \<Rightarrow> App \<Rightarrow> fault + App" where
  "committed prev s = (case commit prev s of Inl e \<Rightarrow> Inl (Uncaught e) | Inr s' \<Rightarrow> Inr s')"

fun step :: "event \<Rightarrow> App \<Rightarrow> fault + App" where
  "step ToggleCamera s = committed s (handleToggleCamera s)"
| "step SwitchCamera s = committed s (handleSwitchCamera s)"
| "step (GetUserMediaResolves i stream) s =
     (if i < length (pending_getUserMedia s) then
        committed s
          (startCamera_stream (pending_getUserMedia s ! i) stream
             (s\<lparr>pending_getUserMedia := remove_nth i (pending_getUserMedia s)\<rparr>))
      else Inl NotEnabled)"
| "step (GetUserMediaRejects i) s =
     (if i < length (pending_getUserMedia s) then
        committed s
          (startCamera_catch (s\<lparr>pending_getUserMedia := remove_nth i (pending_getUserMedia s)\<rparr>))
      else Inl NotEnabled)"
| "step (PlayResolves i) s =
     (if i < length (pending_play s) then
        committed s
          (startCamera_playing (pending_play s ! i)
             (s\<lparr>pending_play := remove_nth i (pending_play s)\<rparr>))
      else Inl NotEnabled)"
| "step (PlayRejects i) s =
     (if i < length (pending_play s) then
        committed s (startCamera_catch (s\<lparr>pending_play := remove_nth i (pending_play s)\<rparr>))
      else Inl NotEnabled)"
| "step (IntervalFires h img) s =
     (case map_of (intervals s) h of
        None \<Rightarrow> Inl NotEnabled
      | Some c \<Rightarrow> committed s (captureAndDetect c img s))"
| "step (GenerateContentSettles i outcome) s =
     (if i < length (pending_generate s) then
        committed s
          (captureAndDetect_settled (pending_generate s ! i) outcome
             (s\<lparr>pending_generate := remove_nth i (pending_generate s)\<rparr>))
      else Inl NotEnabled)"

fun run :: "event list \<Rightarrow> App \<Rightarrow> fault + App" where
  "run [] s = Inr s"
| "run (e # es) s = (case step e s of Inl f \<Rightarrow> Inl f | Inr s' \<Rightarrow> run es s')"

text \<open>The status after each event of a run, as far as the run goes.\<close>

fun statuses :: "event list \<Rightarrow> App \<Rightarrow> Status list" where
  "statuses [] s = []"
| "statuses (e # es) s =
     (case step e s of Inl f \<Rightarrow> [] | Inr s' \<Rightarrow> status s' # statuses es s')"

text \<open>
  A session of the component in a browser that has \<open>getUserMedia\<close> and a 2d canvas
  context: the component is mounted, then the events happen in order. \<open>observe\<close> reads a
  field of the state a run ends in.
\<close>

definition session :: "event list \<Rightarrow> fault + App" where
  "session es = (case mount True True of Inl e \<Rightarrow> Inl (Uncaught e) | Inr m \<Rightarrow> run es m)"

definition observe :: "(App \<Rightarrow> 'a) \<Rightarrow> fault + App \<Rightarrow> 'a option" where
  "observe f res = (case res of Inl e \<Rightarrow> None | Inr s \<Rightarrow> Some (f s))"

text \<open>The same in a browser that has no \<open>getUserMedia\<close>.\<close>

definition unsupported_session :: "event list \<Rightarrow> fault + App" where
  "unsupported_session es =
     (case mount False True of Inl e \<Rightarrow> Inl (Uncaught e) | Inr m \<Rightarrow> run es m)"

text \<open>
  The statuses a first activation goes through: the status of the first render, the
  status after the mount effects, and the status after the click, after the camera
  stream has arrived and after the video plays, with repetitions dropped.
\<close>

definition first_activation_statuses :: "MediaStream \<Rightarrow> Status list" where
  "first_activation_statuses stream =
     (case mount True True of
        Inl e \<Rightarrow> [status (initial True True)]
      | Inr m \<Rightarrow>
          remdups_adj (status (initial True True) # status m #
            statuses [ToggleCamera, GetUserMediaResolves 0 stream, PlayResolves 0] m))"

subsection \<open>Notions used to state the properties\<close>

text \<open>
  The punctuation characters of ASCII: its printable characters other than the letters,
  the digits and the space.
\<close>

definition ascii_punctuation :: "16 word \<Rightarrow> bool" where
  "ascii_punctuation c \<longleftrightarrow>
     (0x21 \<le> c \<and> c \<le> 0x2F) \<or> (0x3A \<le> c \<and> c \<le> 0x40)
     \<or> (0x5B \<le> c \<and> c \<le> 0x60) \<or> (0x7B \<le> c \<and> c \<le> 0x7E)"

text \<open>
  Two renders have the same dependencies when no effect of the component would run
  between them.
\<close>

definition same_deps :: "App \<Rightarrow> App \<Rightarrow> bool" where
  "same_deps p r \<longleftrightarrow> audioUrl p = audioUrl r \<and> detectedColor p = detectedColor r
     \<and> isCameraOn p = isCameraOn r \<and> facingMode p = facingMode r"

text \<open>
  The browser calls \<open>stopCameraStream\<close> makes in a state: \<open>stop\<close> on each track of the
  stream the video element holds, then \<open>clearInterval\<close> on the handle the ref holds.
\<close>

definition stop_calls :: "App \<Rightarrow> action list" where
  "stop_calls s =
     (case videoRef s of Some (Some stream) \<Rightarrow> map TrackStop stream | _ \<Rightarrow> [])
     @ (case detectionIntervalRef s of
          None \<Rightarrow> [] | Some h \<Rightarrow> if h = 0 then [] else [ClearInterval h])"

text \<open>
  Every classification call in flight was started by a function object whose guard read
  \<open>isLoading\<close> as false.
\<close>

definition passed_guard :: "App \<Rightarrow> bool" where
  "passed_guard s \<longleftrightarrow> list_all (\<lambda>c. \<not> cap_isLoading c) (pending_generate s)"

text \<open>A state with one timer running and one classification call in flight.\<close>

definition detecting_state :: App where
  "detecting_state =
     (initial True True)
       \<lparr>isCameraOn := True, status := Detecting, isLoading := True,
        videoRef := Some (Some [0, 1]), detectionIntervalRef := Some 1,
        intervals := [(1, \<lparr>cap_isLoading = False, cap_detectedColor = []\<rparr>)],
        next_handle := 2,
        pending_generate := [\<lparr>cap_isLoading = False, cap_detectedColor = []\<rparr>],
        trace := [GetUserMedia Environment, VideoPlay, SetInterval 1, DrawImage,
                  GenerateContent (js ''frame'')]\<rparr>"

text \<open>
  The state of a session in which the label Blue is displayed and announced and the next
  classification call is in flight (\<open>showing_blue_reached\<close>).
\<close>

definition showing_blue :: App where
  "showing_blue =
     detecting_state
       \<lparr>detectedColor := js ''Blue'', audioUrl := tts_prefix @ js ''Blue'',
        colorUpdateKey := 1,
        trace := [GetUserMedia Environment, VideoPlay, SetInterval 1, DrawImage,
                  GenerateContent (js ''frame''), AudioLoad,
                  AudioPlay (tts_prefix @ js ''Blue''), DrawImage,
                  GenerateContent (js ''frame'')]\<rparr>"

section \<open>Properties\<close>

subsection \<open>Auxiliary facts\<close>

lemma replace_class_filter: "replace_class t = filter (\<lambda>c. c \<notin> set sanitized_class) t"
  by (induction t) simp_all

lemma sanitized_class_punctuation: "c \<in> set sanitized_class \<Longrightarrow> ascii_punctuation c"
  by (auto simp: sanitized_class_def js_def ascii_punctuation_def)

lemma replace_class_keeps_others:
  "filter (\<lambda>c. \<not> ascii_punctuation c) (replace_class t) = filter (\<lambda>c. \<not> ascii_punctuation c) t"
  by (induction t) (auto dest: sanitized_class_punctuation)

lemma stopCameraStream_keeps [simp]:
  "isCameraOn (stopCameraStream s) = isCameraOn s"
  "facingMode (stopCameraStream s) = facingMode s"
  "status (stopCameraStream s) = status s"
  "detectedColor (stopCameraStream s) = detectedColor s"
  "isLoading (stopCameraStream s) = isLoading s"
  "error (stopCameraStream s) = error s"
  "audioUrl (stopCameraStream s) = audioUrl s"
  "colorUpdateKey (stopCameraStream s) = colorUpdateKey s"
  "canvasRef (stopCameraStream s) = canvasRef s"
  "audioRef (stopCameraStream s) = audioRef s"
  "has_getUserMedia (stopCameraStream s) = has_getUserMedia s"
  "next_handle (stopCameraStream s) = next_handle s"
  "pending_getUserMedia (stopCameraStream s) = pending_getUserMedia s"
  "pending_play (stopCameraStream s) = pending_play s"
  "pending_generate (stopCameraStream s) = pending_generate s"
  by (simp_all add: stopCameraStream_def Let_def split: option.splits)

lemma stopCameraStream_twice [simp]:
  "stopCameraStream (stopCameraStream s) = stopCameraStream s"
  by (simp add: stopCameraStream_def Let_def split: option.splits)

lemma stopCameraStream_status_update [simp]:
  "stopCameraStream (s\<lparr>status := x\<rparr>) = (stopCameraStream s)\<lparr>status := x\<rparr>"
  by (simp add: stopCameraStream_def Let_def split: option.splits)

lemma stopCameraStream_facingMode_update [simp]:
  "stopCameraStream (s\<lparr>facingMode := x\<rparr>) = (stopCameraStream s)\<lparr>facingMode := x\<rparr>"
  by (simp add: stopCameraStream_def Let_def split: option.splits)

lemma stopCameraStream_toggle_update [simp]:
  "stopCameraStream (s\<lparr>isCameraOn := b, detectedColor := d\<rparr>)
     = (stopCameraStream s)\<lparr>isCameraOn := b, detectedColor := d\<rparr>"
  by (simp add: stopCameraStream_def Let_def split: option.splits)

lemma stopCameraStream_videoRef:
  "videoRef (stopCameraStream s) = (case videoRef s of None \<Rightarrow> None | Some v \<Rightarrow> Some None)"
  by (simp add: stopCameraStream_def Let_def split: option.splits)

lemma map_of_filter_other: "map_of (filter (\<lambda>(i, c). i \<noteq> h) xs) h = None"
  by (induction xs) auto

lemma stopCameraStream_intervals: "set (intervals (stopCameraStream s)) \<subseteq> set (intervals s)"
  by (auto simp: stopCameraStream_def Let_def split: option.splits)

lemma stopCameraStream_trace: "trace (stopCameraStream s) = trace s @ stop_calls s"
  by (simp add: stopCameraStream_def stop_calls_def Let_def split: option.splits)

lemma stopCameraStream_released:
  "videoRef s = Some (Some stream) \<Longrightarrow> set stream \<subseteq> ended (stopCameraStream s)"
  "detectionIntervalRef s = Some h \<Longrightarrow> h \<noteq> 0
     \<Longrightarrow> map_of (intervals (stopCameraStream s)) h = None"
  by (auto simp: stopCameraStream_def Let_def map_of_filter_other split: option.splits)

lemma stop_calls_complete:
  "videoRef s = Some (Some stream) \<Longrightarrow> t \<in> set stream \<Longrightarrow> TrackStop t \<in> set (stop_calls s)"
  "detectionIntervalRef s = Some h \<Longrightarrow> h \<noteq> 0 \<Longrightarrow> ClearInterval h \<in> set (stop_calls s)"
  by (auto simp: stop_calls_def)

lemma stop_calls_no_request: "GetUserMedia m \<notin> set (stop_calls s)"
  by (auto simp: stop_calls_def split: option.splits)

lemma stop_calls_facingMode_update [simp]: "stop_calls (s\<lparr>facingMode := x\<rparr>) = stop_calls s"
  by (simp add: stop_calls_def)

lemma stop_calls_stopped [simp]: "stop_calls (stopCameraStream s) = []"
  by (simp add: stop_calls_def stopCameraStream_def Let_def split: option.splits)

lemma remove_nth_last [simp]: "remove_nth (length xs) (xs @ [x]) = xs"
  by (simp add: remove_nth_def)

subsection \<open>Rendering settles\<close>

lemma same_deps_refl [simp]: "same_deps r r"
  by (simp add: same_deps_def)

lemma stopCameraStream_same_deps [simp]: "same_deps r (stopCameraStream r)"
  by (simp add: same_deps_def)

lemma effects_round_same_deps: "same_deps p r \<Longrightarrow> effects_round (Some p) r = Inr r"
  by (simp add: effects_round_def same_deps_def camera_deps_changed_def)

lemma render_loop_same_deps: "same_deps p r \<Longrightarrow> render_loop n (Some p) r = Inr r"
proof (induction n arbitrary: p)
  case 0
  then show ?case by simp
next
  case (Suc n)
  then show ?case by (simp add: effects_round_same_deps)
qed

lemma commit_same_deps: "same_deps p r \<Longrightarrow> commit p r = Inr r"
  by (simp add: commit_def render_loop_same_deps)

lemma committed_same_deps: "same_deps p r \<Longrightarrow> committed p r = Inr r"
  by (simp add: committed_def commit_same_deps)

lemma effects_round_first:
  assumes "effects_round prev r = Inr s"
  shows "detectedColor s = detectedColor r \<and> facingMode s = facingMode r
         \<and> (isCameraOn s = isCameraOn r \<or> \<not> isCameraOn s)"
  using assms
  by (auto simp: effects_round_def Let_def color_effect_def speak_def audio_effect_def
        camera_effect_def startCamera_def
      split: if_splits sum.splits option.splits)

lemma effects_round_second:
  assumes "detectedColor p = detectedColor r" "facingMode p = facingMode r"
    "isCameraOn p = isCameraOn r \<or> \<not> isCameraOn r"
  shows "\<exists>s. effects_round (Some p) r = Inr s \<and> same_deps r s"
  using assms
  by (auto simp: effects_round_def Let_def audio_effect_def camera_deps_changed_def
        camera_effect_def same_deps_def)

text \<open>
  Two commits are all the component ever needs: whatever the first one sets, the second
  leaves every dependency as it is, so further commits run no effect.
\<close>

lemma render_loop_stable: "render_loop (Suc (Suc n)) prev r = render_loop 2 prev r"
proof (cases "effects_round prev r")
  case (Inl e)
  then show ?thesis by (simp add: numeral_2_eq_2)
next
  case (Inr s1)
  from effects_round_first [OF Inr] obtain s2
    where s2: "effects_round (Some r) s1 = Inr s2" "same_deps s1 s2"
    using effects_round_second [of r s1] by auto
  with Inr show ?thesis
    by (cases n) (simp_all add: numeral_2_eq_2 effects_round_same_deps render_loop_same_deps)
qed

lemma effects_round_camera_only:
  assumes "audioUrl p = audioUrl r" "detectedColor r = [] \<or> detectedColor p = detectedColor r"
    "camera_deps_changed (Some p) r"
  shows "effects_round (Some p) r = Inr (camera_effect r (stopCameraStream r))"
  using assms by (auto simp: effects_round_def Let_def color_effect_def)

lemma startCamera_same_deps:
  "has_getUserMedia s \<Longrightarrow> same_deps r s \<Longrightarrow> same_deps r (startCamera r s)"
  by (simp add: startCamera_def Let_def same_deps_def)

lemma commit_camera_on:
  assumes "audioUrl p = audioUrl r" "detectedColor r = [] \<or> detectedColor p = detectedColor r"
    "camera_deps_changed (Some p) r" "isCameraOn r" "has_getUserMedia r"
  shows "committed p r = Inr (startCamera r (stopCameraStream r))"
proof -
  have "effects_round (Some p) r = Inr (startCamera r (stopCameraStream r))"
    using assms by (simp add: effects_round_camera_only camera_effect_def)
  moreover have "same_deps r (startCamera r (stopCameraStream r))"
    using assms by (simp add: startCamera_same_deps)
  ultimately show ?thesis
    by (simp add: committed_def commit_def numeral_2_eq_2 effects_round_same_deps)
qed

lemma commit_camera_off:
  assumes "audioUrl p = audioUrl r" "detectedColor r = [] \<or> detectedColor p = detectedColor r"
    "camera_deps_changed (Some p) r" "\<not> isCameraOn r"
  shows "committed p r = Inr ((stopCameraStream r)\<lparr>status := Stopped\<rparr>)"
proof -
  have "effects_round (Some p) r = Inr ((stopCameraStream r)\<lparr>status := Stopped\<rparr>)"
    using assms by (simp add: effects_round_camera_only camera_effect_def)
  moreover have "same_deps r ((stopCameraStream r)\<lparr>status := Stopped\<rparr>)"
    by (simp add: same_deps_def)
  ultimately show ?thesis
    by (simp add: committed_def commit_def numeral_2_eq_2 effects_round_same_deps)
qed

lemma commit_after_catch:
  assumes "audioUrl p = audioUrl s0" "detectedColor p = detectedColor s0"
    "facingMode p = facingMode s0" "isCameraOn p = isCameraOn s0"
  shows "committed p (startCamera_catch s0) =
           Inr (if isCameraOn p then (stopCameraStream (startCamera_catch s0))\<lparr>status := Stopped\<rparr>
                else startCamera_catch s0)"
proof (cases "isCameraOn p")
  case True
  with assms show ?thesis
    by (simp add: commit_camera_off camera_deps_changed_def startCamera_catch_def)
next
  case False
  with assms show ?thesis
    by (simp add: committed_same_deps same_deps_def startCamera_catch_def)
qed

subsection \<open>Single steps\<close>

lemma mount_Stopped: "mount media ctx = Inr ((initial media ctx)\<lparr>status := Stopped\<rparr>)"
proof -
  have "effects_round None (initial media ctx) = Inr ((initial media ctx)\<lparr>status := Stopped\<rparr>)"
    by (simp add: effects_round_def camera_deps_changed_def audio_effect_def color_effect_def
          camera_effect_def initial_def stopCameraStream_def)
  moreover have "same_deps (initial media ctx) ((initial media ctx)\<lparr>status := Stopped\<rparr>)"
    by (simp add: same_deps_def)
  ultimately show ?thesis
    by (simp add: mount_def numeral_2_eq_2 effects_round_same_deps)
qed

lemma step_ToggleCamera_on:
  assumes "\<not> isCameraOn s" "has_getUserMedia s"
  shows "step ToggleCamera s =
           Inr (startCamera (s\<lparr>isCameraOn := True, detectedColor := []\<rparr>)
                  (stopCameraStream (s\<lparr>isCameraOn := True, detectedColor := []\<rparr>)))"
  using assms by (simp add: handleToggleCamera_def commit_camera_on camera_deps_changed_def)

lemma startCamera_requested:
  assumes "has_getUserMedia s"
  shows "status (startCamera r s) = Initializing"
    "pending_getUserMedia (startCamera r s) = pending_getUserMedia s @ [closure_of r]"
    "pending_play (startCamera r s) = pending_play s"
    "videoRef (startCamera r s) = videoRef (stopCameraStream s)"
  using assms by (simp_all add: startCamera_def Let_def)

lemma startCamera_trace:
  "has_getUserMedia s \<Longrightarrow>
     trace (startCamera r s) = trace s @ stop_calls s @ [GetUserMedia (facingMode r)]"
  by (simp add: startCamera_def Let_def stopCameraStream_trace)

lemma startCamera_released:
  "ended (startCamera r s) = ended (stopCameraStream s)"
  "intervals (startCamera r s) = intervals (stopCameraStream s)"
  by (simp_all add: startCamera_def Let_def)

lemma step_GetUserMediaResolves:
  assumes "pending_getUserMedia s = ps @ [c]" "videoRef s \<noteq> None"
  shows "step (GetUserMediaResolves (length ps) stream) s =
           Inr (s\<lparr>pending_getUserMedia := ps, videoRef := Some (Some stream),
                  trace := trace s @ [VideoPlay], pending_play := pending_play s @ [c]\<rparr>)"
  using assms
  by (auto simp: startCamera_stream_def committed_same_deps same_deps_def)

lemma step_PlayResolves:
  assumes "pending_play s = ps @ [c]"
  shows "step (PlayResolves (length ps)) s =
           Inr (startCamera_playing c (s\<lparr>pending_play := ps\<rparr>))"
  using assms
  by (simp add: committed_same_deps same_deps_def startCamera_playing_def)

lemma stopCameraStream_catch_intervals:
  "set (intervals (stopCameraStream (startCamera_catch s))) \<subseteq> set (intervals s)"
  using stopCameraStream_intervals [of "startCamera_catch s"]
  by (simp add: startCamera_catch_def)

subsection \<open>Calls in flight\<close>

lemma effects_round_pending_generate:
  "effects_round prev r = Inr s \<Longrightarrow> pending_generate s = pending_generate r"
  by (auto simp: effects_round_def Let_def color_effect_def speak_def audio_effect_def
        camera_effect_def startCamera_def
      split: if_splits sum.splits option.splits)

lemma render_loop_pending_generate:
  "render_loop n prev r = Inr s \<Longrightarrow> pending_generate s = pending_generate r"
proof (induction n arbitrary: prev r)
  case 0
  then show ?case by simp
next
  case (Suc n)
  then show ?case
    by (auto split: sum.splits dest: effects_round_pending_generate)
qed

lemma committed_pending_generate:
  "committed p r = Inr s \<Longrightarrow> pending_generate s = pending_generate r"
  by (auto simp: committed_def commit_def split: sum.splits dest: render_loop_pending_generate)

lemma set_remove_nth: "set (remove_nth i xs) \<subseteq> set xs"
  by (auto simp: remove_nth_def dest: in_set_takeD in_set_dropD)

lemma step_passed_guard:
  assumes "step e s = Inr s'" "passed_guard s"
  shows "passed_guard s'"
proof (cases e)
  case (IntervalFires h img)
  with assms show ?thesis
    by (auto simp: passed_guard_def list_all_iff captureAndDetect_def Let_def
          split: option.splits if_splits dest!: committed_pending_generate)
next
  case (GenerateContentSettles i outcome)
  with assms set_remove_nth [of i "pending_generate s"] show ?thesis
    by (auto simp: passed_guard_def list_all_iff captureAndDetect_settled_def Let_def
          split: option.splits if_splits sum.splits dest!: committed_pending_generate)
qed (use assms in \<open>auto simp: passed_guard_def list_all_iff handleToggleCamera_def
      handleSwitchCamera_def startCamera_stream_def startCamera_catch_def startCamera_playing_def
      split: option.splits if_splits dest!: committed_pending_generate\<close>)

lemma run_passed_guard: "run es s = Inr s' \<Longrightarrow> passed_guard s \<Longrightarrow> passed_guard s'"
  by (induction es arbitrary: s) (auto split: sum.splits dest: step_passed_guard)

text \<open>
  In every state a session reaches, each call in flight was started through the guard:
  the function object that started it read \<open>isLoading\<close> as false, and reads it so again
  at the next firing.
\<close>

lemma session_passed_guard: "session es = Inr s \<Longrightarrow> passed_guard s"
proof -
  assume "session es = Inr s"
  then have "run es ((initial True True)\<lparr>status := Stopped\<rparr>) = Inr s"
    by (simp add: session_def mount_Stopped)
  moreover have "passed_guard ((initial True True)\<lparr>status := Stopped\<rparr>)"
    by (simp add: passed_guard_def initial_def)
  ultimately show ?thesis by (rule run_passed_guard)
qed

text \<open>
  The state \<open>detecting_state\<close> is the one a session reaches when the camera is turned
  on, the stream with tracks 0 and 1 arrives, the video plays and the timer fires once.
\<close>

lemma detecting_state_reached:
  "session [ToggleCamera, GetUserMediaResolves 0 [0, 1], PlayResolves 0,
            IntervalFires 1 (js ''frame'')] = Inr detecting_state"
  by code_simp

lemma showing_blue_reached:
  "session [ToggleCamera, GetUserMediaResolves 0 [0, 1], PlayResolves 0,
            IntervalFires 1 (js ''frame''),
            GenerateContentSettles 0 (Response (Some (js ''Blue''))),
            IntervalFires 1 (js ''frame'')] = Inr showing_blue"
  by code_simp

section \<open>The claims\<close>

subsection \<open>The classification client\<close>

text \<open>
  C1, as amended. For every response text the remote service returns,
  \<open>detectColorFromImage\<close> returns a label made from the trimmed text by deleting
  characters only. None of the characters \<open>. , / # ! $ % ^ & * ; : { } = - _ ` ~ ( )\<close> is
  left in it, and every character that is not punctuation is kept, in order; inner white
  space is among the characters kept, so the label holds no white space only when the
  trimmed text holds none.
\<close>

theorem detectColorFromImage_sanitized:
  "\<exists>label. detectColorFromImage (Response (Some text)) = Inr label
     \<and> set label \<inter> set sanitized_class = {}
     \<and> subseq label (trim text)
     \<and> filter (\<lambda>c. \<not> ascii_punctuation c) label
         = filter (\<lambda>c. \<not> ascii_punctuation c) (trim text)
     \<and> ((\<forall>c \<in> set (trim text). \<not> js_whitespace c) \<longrightarrow> (\<forall>c \<in> set label. \<not> js_whitespace c))"
proof -
  have "set (replace_class (trim text)) \<inter> set sanitized_class = {}"
    by (auto simp: replace_class_filter)
  moreover have "subseq (replace_class (trim text)) (trim text)"
    by (simp add: replace_class_filter)
  moreover have "set (replace_class (trim text)) \<subseteq> set (trim text)"
    by (auto simp: replace_class_filter)
  ultimately show ?thesis
    by (auto simp: detectColorFromImage_def replace_class_keeps_others)
qed

text \<open>The example of the specification: the response \<open>Blue.\<close> gives the label \<open>Blue\<close>.\<close>

theorem detectColorFromImage_sanitized_witness:
  "detectColorFromImage (Response (Some (js ''Blue.''))) = Inr (js ''Blue'')
   \<and> set (js ''Blue'') \<inter> set sanitized_class = {}
   \<and> trim (js ''Blue.'') = js ''Blue.''
   \<and> list_all (\<lambda>c. \<not> js_whitespace c) (js ''Blue.'')
   \<and> list_all (\<lambda>c. \<not> js_whitespace c) (js ''Blue'')"
  using detectColorFromImage_sanitized [of "js ''Blue.''"]
  by (simp add: detectColorFromImage_def js_def trim_def js_whitespace_def sanitized_class_def)

text \<open>
  C1 as stated does not hold: the response \<open>Dark Blue.\<close> contains punctuation, and its
  label \<open>Dark Blue\<close> holds a space: it is two words.
\<close>

theorem detectColorFromImage_two_words:
  "detectColorFromImage (Response (Some (js ''Dark Blue.''))) = Inr (js ''Dark Blue'')
   \<and> of_char CHR ''.'' \<in> set (js ''Dark Blue.'')
   \<and> of_char CHR '' '' \<in> set (js ''Dark Blue'')
   \<and> js_whitespace (of_char CHR '' '')"
  by (simp add: detectColorFromImage_def js_def trim_def js_whitespace_def sanitized_class_def)

text \<open>
  C8. When \<open>process.env.API_KEY\<close> is undefined, loading the service module throws, and so
  does the start of the application that imports it: no component is mounted, so no
  classification call can be made. The empty string, falsy as well, has the same effect.
\<close>

theorem startup_without_key:
  "load_geminiService None = Inl (JsError (js ''API_KEY environment variable not set''))
   \<and> startup None media ctx = Inl (JsError (js ''API_KEY environment variable not set''))
   \<and> startup (Some []) media ctx = Inl (JsError (js ''API_KEY environment variable not set''))"
  by (simp add: startup_def load_geminiService_def)

theorem startup_without_key_witness:
  "startup None True True = Inl (JsError (js ''API_KEY environment variable not set''))"
  using startup_without_key [of True True] by simp

subsection \<open>The session controller\<close>

text \<open>
  C10. \<open>stopCameraStream\<close> is idempotent: in every state, running it twice gives the
  state that running it once gives. After one run the video element holds no stream and
  the ref holds no timer handle (the handle 0, which no browser gives out, is the one
  value the truthiness test leaves in place).
\<close>

theorem stopCameraStream_idempotent:
  "stopCameraStream (stopCameraStream s) = stopCameraStream s
   \<and> videoRef (stopCameraStream s) \<in> {None, Some None}
   \<and> detectionIntervalRef (stopCameraStream s) \<in> {None, Some 0}"
  by (simp add: stopCameraStream_def Let_def split: option.splits)

theorem stopCameraStream_idempotent_witness:
  "stopCameraStream (stopCameraStream detecting_state) = stopCameraStream detecting_state
   \<and> videoRef (stopCameraStream detecting_state) = Some None
   \<and> detectionIntervalRef (stopCameraStream detecting_state) = None
   \<and> intervals (stopCameraStream detecting_state) = []
   \<and> ended (stopCameraStream detecting_state) = {0, 1}"
  using stopCameraStream_idempotent [of detecting_state]
  by (simp add: stopCameraStream_def detecting_state_def initial_def insert_commute)

text \<open>
  What \<open>startCamera\<close> sets when the camera request fails, on each of its three failing
  paths: the browser has no \<open>getUserMedia\<close> (state \<open>u\<close>, render \<open>r\<close>), \<open>getUserMedia\<close> is
  rejected (the \<open>catch\<close> block, state \<open>s\<close>, and the step for the pending request \<open>i\<close> of
  \<open>a\<close>), and \<open>play\<close> is rejected (pending \<open>j\<close> of \<open>b\<close>). It sets the status to \<open>Error\<close>,
  the error to a fixed message and \<open>isCameraOn\<close> to false, and starts no timer. After the
  step the toggle is off, the message stands and no timer was started; the status of the
  step is the matter of the next two statements.
\<close>

lemma startCamera_failure_values:
  "(\<not> has_getUserMedia u \<longrightarrow>
      status (startCamera r u) = Error
      \<and> error (startCamera r u) = Some (js ''Camera not supported by this browser.'')
      \<and> \<not> isCameraOn (startCamera r u)
      \<and> next_handle (startCamera r u) = next_handle u
      \<and> set (intervals (startCamera r u)) \<subseteq> set (intervals u)
      \<and> pending_getUserMedia (startCamera r u) = pending_getUserMedia u)
   \<and> status (startCamera_catch s) = Error
   \<and> error (startCamera_catch s) = Some (js ''Camera access denied. Please allow camera permissions in your browser settings.'')
   \<and> \<not> isCameraOn (startCamera_catch s)
   \<and> next_handle (startCamera_catch s) = next_handle s
   \<and> intervals (startCamera_catch s) = intervals s
   \<and> (i < length (pending_getUserMedia a) \<longrightarrow>
        (\<exists>a'. step (GetUserMediaRejects i) a = Inr a'
           \<and> error a' = Some (js ''Camera access denied. Please allow camera permissions in your browser settings.'')
           \<and> \<not> isCameraOn a' \<and> next_handle a' = next_handle a
           \<and> set (intervals a') \<subseteq> set (intervals a)))
   \<and> (j < length (pending_play b) \<longrightarrow>
        (\<exists>b'. step (PlayRejects j) b = Inr b'
           \<and> error b' = Some (js ''Camera access denied. Please allow camera permissions in your browser settings.'')
           \<and> \<not> isCameraOn b' \<and> next_handle b' = next_handle b
           \<and> set (intervals b') \<subseteq> set (intervals b)))"
proof (intro conjI impI)
  assume i: "i < length (pending_getUserMedia a)"
  define a0 where "a0 = a\<lparr>pending_getUserMedia := remove_nth i (pending_getUserMedia a)\<rparr>"
  have "committed a (startCamera_catch a0) =
          Inr (if isCameraOn a then (stopCameraStream (startCamera_catch a0))\<lparr>status := Stopped\<rparr>
               else startCamera_catch a0)"
    by (rule commit_after_catch) (simp_all add: a0_def)
  with i have "step (GetUserMediaRejects i) a =
          Inr (if isCameraOn a then (stopCameraStream (startCamera_catch a0))\<lparr>status := Stopped\<rparr>
               else startCamera_catch a0)"
    by (simp add: a0_def)
  moreover have "set (intervals (stopCameraStream (startCamera_catch a0))) \<subseteq> set (intervals a)"
    using stopCameraStream_catch_intervals [of a0] by (simp add: a0_def)
  ultimately show "\<exists>a'. step (GetUserMediaRejects i) a = Inr a'
           \<and> error a' = Some (js ''Camera access denied. Please allow camera permissions in your browser settings.'')
           \<and> \<not> isCameraOn a' \<and> next_handle a' = next_handle a
           \<and> set (intervals a') \<subseteq> set (intervals a)"
    by (auto simp: startCamera_catch_def a0_def)
next
  assume j: "j < length (pending_play b)"
  define b0 where "b0 = b\<lparr>pending_play := remove_nth j (pending_play b)\<rparr>"
  have "committed b (startCamera_catch b0) =
          Inr (if isCameraOn b then (stopCameraStream (startCamera_catch b0))\<lparr>status := Stopped\<rparr>
               else startCamera_catch b0)"
    by (rule commit_after_catch) (simp_all add: b0_def)
  with j have "step (PlayRejects j) b =
          Inr (if isCameraOn b then (stopCameraStream (startCamera_catch b0))\<lparr>status := Stopped\<rparr>
               else startCamera_catch b0)"
    by (simp add: b0_def)
  moreover have "set (intervals (stopCameraStream (startCamera_catch b0))) \<subseteq> set (intervals b)"
    using stopCameraStream_catch_intervals [of b0] by (simp add: b0_def)
  ultimately show "\<exists>b'. step (PlayRejects j) b = Inr b'
           \<and> error b' = Some (js ''Camera access denied. Please allow camera permissions in your browser settings.'')
           \<and> \<not> isCameraOn b' \<and> next_handle b' = next_handle b
           \<and> set (intervals b') \<subseteq> set (intervals b)"
    by (auto simp: startCamera_catch_def b0_def)
qed (use stopCameraStream_intervals [of u] in \<open>auto simp: startCamera_def startCamera_catch_def Let_def\<close>)

text \<open>
  What follows the failure: \<open>isCameraOn\<close> went from true to false, so the camera effect
  runs again and its other branch sets the status to \<open>Stopped\<close>; the error message stays.
\<close>

lemma camera_failure_then_Stopped:
  assumes "i < length (pending_getUserMedia s)" "isCameraOn s"
  shows "\<exists>s'. step (GetUserMediaRejects i) s = Inr s' \<and> status s' = Stopped
           \<and> error s' = Some (js ''Camera access denied. Please allow camera permissions in your browser settings.'')"
proof -
  define s0 where "s0 = s\<lparr>pending_getUserMedia := remove_nth i (pending_getUserMedia s)\<rparr>"
  have "committed s (startCamera_catch s0) =
          Inr (if isCameraOn s then (stopCameraStream (startCamera_catch s0))\<lparr>status := Stopped\<rparr>
               else startCamera_catch s0)"
    by (rule commit_after_catch) (simp_all add: s0_def)
  with assms show ?thesis
    by (simp add: s0_def startCamera_catch_def)
qed

text \<open>
  C3 fails on the code. \<open>startCamera\<close> sets the status to \<open>Error\<close> (lines 112 and 117)
  and, with it, \<open>isCameraOn\<close> to false (lines 113 and 118); that change runs the camera
  effect again, whose other branch sets the status to \<open>Stopped\<close> (line 127). An
  activation whose camera request fails therefore ends in \<open>Stopped\<close>, with the fixed
  message, the toggle off and no timer, on each of the three failing paths.
\<close>

theorem failed_activation_ends_Stopped:
  "observe status (session [ToggleCamera, GetUserMediaRejects 0]) = Some Stopped
   \<and> observe error (session [ToggleCamera, GetUserMediaRejects 0])
       = Some (Some (js ''Camera access denied. Please allow camera permissions in your browser settings.''))
   \<and> observe isCameraOn (session [ToggleCamera, GetUserMediaRejects 0]) = Some False
   \<and> observe intervals (session [ToggleCamera, GetUserMediaRejects 0]) = Some []
   \<and> observe status (session [ToggleCamera, GetUserMediaResolves 0 [0, 1], PlayRejects 0])
       = Some Stopped
   \<and> observe status (unsupported_session [ToggleCamera]) = Some Stopped
   \<and> observe error (unsupported_session [ToggleCamera])
       = Some (Some (js ''Camera not supported by this browser.''))
   \<and> observe isCameraOn (unsupported_session [ToggleCamera]) = Some False"
  by code_simp

text \<open>
  What the rest of \<open>captureAndDetect\<close> does when the classification call of a pending
  cycle throws (the remote call is rejected or its response has no text): it sets the
  status to \<open>Error\<close> and the error to a fixed message asking to try again, clears
  \<open>isLoading\<close>, and leaves the timers and the handle in the ref as they are; nothing is
  cancelled and no browser call is made. A timer whose function object closed over a
  false \<open>isLoading\<close> then captures a frame and starts a new call when it fires.
\<close>

lemma classification_failure_effects:
  assumes "i < length (pending_generate s)" "detectColorFromImage outcome = Inl e"
  shows "\<exists>s'. step (GenerateContentSettles i outcome) s = Inr s'
           \<and> status s' = Error
           \<and> error s' = Some (js ''Could not detect color. Please try again.'')
           \<and> \<not> isLoading s'
           \<and> intervals s' = intervals s
           \<and> detectionIntervalRef s' = detectionIntervalRef s
           \<and> trace s' = trace s
           \<and> pending_generate s' = remove_nth i (pending_generate s)
           \<and> (\<forall>h c img. map_of (intervals s) h = Some c \<and> \<not> cap_isLoading c
                  \<and> videoRef s \<noteq> None \<and> canvasRef s = Some True
                \<longrightarrow> (\<exists>s''. step (IntervalFires h img) s' = Inr s''
                       \<and> trace s'' = trace s' @ [DrawImage, GenerateContent img]
                       \<and> pending_generate s'' = pending_generate s' @ [c]))"
  using assms
  by (auto simp: captureAndDetect_settled_def committed_same_deps same_deps_def
        captureAndDetect_def Let_def)

text \<open>
  A timer whose function object closed over a true \<open>isLoading\<close> does nothing when it
  fires, whatever the state.
\<close>

lemma captured_loading_skips:
  assumes "map_of (intervals s) h = Some c" "cap_isLoading c"
  shows "step (IntervalFires h img) s = Inr s"
  using assms by (simp add: captureAndDetect_def committed_same_deps)

text \<open>
  C4 fails on the code, in its last part. The camera is switched while a classification
  call is in flight: timer 1 is cleared, and timer 2 is given the \<open>captureAndDetect\<close> of
  the render of the switch, which closed over \<open>isLoading\<close> true. The call then throws:
  the status is \<open>Error\<close>, \<open>isLoading\<close> is cleared and timer 2 is not cancelled. Yet when
  timer 2 fires, the guard of line 61 reads the stale true and returns: no frame is
  captured and no call is made, at this firing and at every later one.
\<close>

theorem failed_cycle_then_skipped:
  "observe status
     (session [ToggleCamera, GetUserMediaResolves 0 [0, 1], PlayResolves 0,
               IntervalFires 1 (js ''frame''), SwitchCamera,
               GetUserMediaResolves 0 [2, 3], PlayResolves 0,
               GenerateContentSettles 0 Rejected]) = Some Error
   \<and> observe isLoading
       (session [ToggleCamera, GetUserMediaResolves 0 [0, 1], PlayResolves 0,
                 IntervalFires 1 (js ''frame''), SwitchCamera,
                 GetUserMediaResolves 0 [2, 3], PlayResolves 0,
                 GenerateContentSettles 0 Rejected]) = Some False
   \<and> observe intervals
       (session [ToggleCamera, GetUserMediaResolves 0 [0, 1], PlayResolves 0,
                 IntervalFires 1 (js ''frame''), SwitchCamera,
                 GetUserMediaResolves 0 [2, 3], PlayResolves 0,
                 GenerateContentSettles 0 Rejected])
     = Some [(2, \<lparr>cap_isLoading = True, cap_detectedColor = []\<rparr>)]
   \<and> observe detectionIntervalRef
       (session [ToggleCamera, GetUserMediaResolves 0 [0, 1], PlayResolves 0,
                 IntervalFires 1 (js ''frame''), SwitchCamera,
                 GetUserMediaResolves 0 [2, 3], PlayResolves 0,
                 GenerateContentSettles 0 Rejected]) = Some (Some 2)
   \<and> session [ToggleCamera, GetUserMediaResolves 0 [0, 1], PlayResolves 0,
               IntervalFires 1 (js ''frame''), SwitchCamera,
               GetUserMediaResolves 0 [2, 3], PlayResolves 0,
               GenerateContentSettles 0 Rejected, IntervalFires 2 (js ''next'')]
     = session [ToggleCamera, GetUserMediaResolves 0 [0, 1], PlayResolves 0,
                IntervalFires 1 (js ''frame''), SwitchCamera,
                GetUserMediaResolves 0 [2, 3], PlayResolves 0,
                GenerateContentSettles 0 Rejected]
   \<and> observe pending_generate
       (session [ToggleCamera, GetUserMediaResolves 0 [0, 1], PlayResolves 0,
                 IntervalFires 1 (js ''frame''), SwitchCamera,
                 GetUserMediaResolves 0 [2, 3], PlayResolves 0,
                 GenerateContentSettles 0 Rejected, IntervalFires 2 (js ''next'')])
     = Some []"
  by code_simp

text \<open>
  C9. When a classification call resolves with the empty label, the step changes neither
  the displayed colour nor the audio URL nor the animation key, and makes no browser
  call: nothing is announced.
\<close>

theorem empty_label_changes_nothing:
  assumes "i < length (pending_generate s)" "detectColorFromImage outcome = Inr []"
  shows "\<exists>s'. step (GenerateContentSettles i outcome) s = Inr s'
           \<and> detectedColor s' = detectedColor s \<and> audioUrl s' = audioUrl s
           \<and> colorUpdateKey s' = colorUpdateKey s \<and> trace s' = trace s"
  using assms
  by (simp add: captureAndDetect_settled_def committed_same_deps same_deps_def)

text \<open>
  While Blue is displayed, the service answers with a single full stop, which sanitizes
  to the empty label: Blue stays, and so does its audio URL.
\<close>

theorem empty_label_changes_nothing_witness:
  "0 < length (pending_generate showing_blue)
   \<and> detectColorFromImage (Response (Some (js ''.''))) = Inr []
   \<and> (\<exists>s'. step (GenerateContentSettles 0 (Response (Some (js ''.'')))) showing_blue = Inr s'
          \<and> detectedColor s' = js ''Blue'' \<and> audioUrl s' = tts_prefix @ js ''Blue''
          \<and> colorUpdateKey s' = 1 \<and> trace s' = trace showing_blue)"
proof -
  have hyps: "0 < length (pending_generate showing_blue)"
    "detectColorFromImage (Response (Some (js ''.''))) = Inr []"
    by (simp_all add: showing_blue_def detecting_state_def initial_def detectColorFromImage_def
          js_def trim_def js_whitespace_def sanitized_class_def)
  have fields: "detectedColor showing_blue = js ''Blue''"
    "audioUrl showing_blue = tts_prefix @ js ''Blue''" "colorUpdateKey showing_blue = 1"
    by (simp_all add: showing_blue_def)
  from empty_label_changes_nothing [OF hyps] fields hyps show ?thesis
    by (simp del: step.simps)
qed

text \<open>
  C6. In every state with the camera on, switching the facing mode (in a browser with
  \<open>getUserMedia\<close>) makes exactly these browser calls, in this order: the calls of
  \<open>stopCameraStream\<close>, then \<open>getUserMedia\<close> with the opposite facing mode. The calls of
  \<open>stopCameraStream\<close> stop every track of the stream the video element holds and clear
  the timer whose handle \<open>detectionIntervalRef\<close> holds, and none of them is a camera
  request; afterwards these tracks are ended and that timer is gone. Turning the camera
  off makes the same calls of \<open>stopCameraStream\<close> and no camera request.
\<close>

theorem release_before_request:
  assumes "isCameraOn s"
  shows "(has_getUserMedia s \<longrightarrow>
           (\<exists>s'. step SwitchCamera s = Inr s'
              \<and> trace s' = trace s @ stop_calls s
                   @ [GetUserMedia (if facingMode s = User then Environment else User)]
              \<and> (\<forall>stream. videoRef s = Some (Some stream) \<longrightarrow>
                    (\<forall>t \<in> set stream. TrackStop t \<in> set (stop_calls s) \<and> t \<in> ended s'))
              \<and> (\<forall>h. detectionIntervalRef s = Some h \<and> h \<noteq> 0 \<longrightarrow>
                    ClearInterval h \<in> set (stop_calls s) \<and> map_of (intervals s') h = None)))
       \<and> (\<exists>s'. step ToggleCamera s = Inr s'
              \<and> trace s' = trace s @ stop_calls s
              \<and> (\<forall>stream. videoRef s = Some (Some stream) \<longrightarrow>
                    (\<forall>t \<in> set stream. TrackStop t \<in> set (stop_calls s) \<and> t \<in> ended s'))
              \<and> (\<forall>h. detectionIntervalRef s = Some h \<and> h \<noteq> 0 \<longrightarrow>
                    ClearInterval h \<in> set (stop_calls s) \<and> map_of (intervals s') h = None))
       \<and> (\<forall>m. GetUserMedia m \<notin> set (stop_calls s))"
proof (intro conjI impI)
  assume media: "has_getUserMedia s"
  define f where "f = (if facingMode s = User then Environment else User)"
  define r where "r = s\<lparr>facingMode := f\<rparr>"
  have "committed s r = Inr (startCamera r (stopCameraStream r))"
    using assms media by (intro commit_camera_on) (auto simp: r_def f_def camera_deps_changed_def)
  then have "step SwitchCamera s = Inr (startCamera r (stopCameraStream r))"
    using assms by (simp add: handleSwitchCamera_def r_def f_def)
  moreover have "trace (startCamera r (stopCameraStream r)) = trace s @ stop_calls s @ [GetUserMedia f]"
    using media by (simp add: startCamera_trace stopCameraStream_trace r_def)
  moreover have "ended (startCamera r (stopCameraStream r)) = ended (stopCameraStream s)"
    "intervals (startCamera r (stopCameraStream r)) = intervals (stopCameraStream s)"
    by (simp_all add: startCamera_released r_def)
  ultimately show "\<exists>s'. step SwitchCamera s = Inr s'
              \<and> trace s' = trace s @ stop_calls s
                   @ [GetUserMedia (if facingMode s = User then Environment else User)]
              \<and> (\<forall>stream. videoRef s = Some (Some stream) \<longrightarrow>
                    (\<forall>t \<in> set stream. TrackStop t \<in> set (stop_calls s) \<and> t \<in> ended s'))
              \<and> (\<forall>h. detectionIntervalRef s = Some h \<and> h \<noteq> 0 \<longrightarrow>
                    ClearInterval h \<in> set (stop_calls s) \<and> map_of (intervals s') h = None)"
    using stopCameraStream_released [of s] stop_calls_complete [of s]
    unfolding f_def by auto
next
  define r where "r = s\<lparr>isCameraOn := False, detectedColor := []\<rparr>"
  have "committed s r = Inr ((stopCameraStream r)\<lparr>status := Stopped\<rparr>)"
    using assms by (intro commit_camera_off) (auto simp: r_def camera_deps_changed_def)
  then have "step ToggleCamera s = Inr ((stopCameraStream r)\<lparr>status := Stopped\<rparr>)"
    using assms by (simp add: handleToggleCamera_def r_def)
  moreover have "trace ((stopCameraStream r)\<lparr>status := Stopped\<rparr>) = trace s @ stop_calls s"
    "ended ((stopCameraStream r)\<lparr>status := Stopped\<rparr>) = ended (stopCameraStream s)"
    "intervals ((stopCameraStream r)\<lparr>status := Stopped\<rparr>) = intervals (stopCameraStream s)"
    by (simp_all add: stopCameraStream_trace r_def)
  ultimately show "\<exists>s'. step ToggleCamera s = Inr s'
              \<and> trace s' = trace s @ stop_calls s
              \<and> (\<forall>stream. videoRef s = Some (Some stream) \<longrightarrow>
                    (\<forall>t \<in> set stream. TrackStop t \<in> set (stop_calls s) \<and> t \<in> ended s'))
              \<and> (\<forall>h. detectionIntervalRef s = Some h \<and> h \<noteq> 0 \<longrightarrow>
                    ClearInterval h \<in> set (stop_calls s) \<and> map_of (intervals s') h = None)"
    using stopCameraStream_released [of s] stop_calls_complete [of s] by auto
next
  show "\<forall>m. GetUserMedia m \<notin> set (stop_calls s)"
    by (simp add: stop_calls_no_request)
qed

text \<open>
  In the session with the rear camera's tracks 0 and 1 and timer 1: switching stops both
  tracks and clears the timer, then asks for the front camera; turning off stops and
  clears the same and asks for nothing.
\<close>

theorem release_before_request_witness:
  "isCameraOn detecting_state \<and> has_getUserMedia detecting_state
   \<and> videoRef detecting_state = Some (Some [0, 1])
   \<and> detectionIntervalRef detecting_state = Some 1
   \<and> (\<exists>s'. step SwitchCamera detecting_state = Inr s'
          \<and> trace s' = trace detecting_state
               @ [TrackStop 0, TrackStop 1, ClearInterval 1, GetUserMedia User]
          \<and> 0 \<in> ended s' \<and> 1 \<in> ended s' \<and> map_of (intervals s') 1 = None)
   \<and> (\<exists>s'. step ToggleCamera detecting_state = Inr s'
          \<and> trace s' = trace detecting_state @ [TrackStop 0, TrackStop 1, ClearInterval 1]
          \<and> 0 \<in> ended s' \<and> 1 \<in> ended s' \<and> map_of (intervals s') 1 = None)"
proof -
  have hyps: "isCameraOn detecting_state" "has_getUserMedia detecting_state"
    "videoRef detecting_state = Some (Some [0, 1])"
    "detectionIntervalRef detecting_state = Some 1"
    "facingMode detecting_state = Environment"
    "stop_calls detecting_state = [TrackStop 0, TrackStop 1, ClearInterval 1]"
    by (simp_all add: detecting_state_def initial_def stop_calls_def)
  from release_before_request [OF hyps(1)] hyps show ?thesis
    by (simp del: step.simps)
qed

text \<open>
  The statuses of an activation. The mount effects, which run the camera-off branch, set
  the status to \<open>Stopped\<close>. From any state with the camera off and status \<open>Stopped\<close>, in
  a browser with \<open>getUserMedia\<close>, the click, the arrival of the stream and the start of
  the video take the status through \<open>Initializing\<close> to \<open>Detecting\<close>.
\<close>

lemma activation_from_Stopped:
  assumes "\<not> isCameraOn s" "has_getUserMedia s" "videoRef s \<noteq> None" "status s = Stopped"
  shows "status (initial media ctx) = Ready
     \<and> mount media ctx = Inr ((initial media ctx)\<lparr>status := Stopped\<rparr>)
     \<and> remdups_adj (status s #
          statuses [ToggleCamera,
                    GetUserMediaResolves (length (pending_getUserMedia s)) stream,
                    PlayResolves (length (pending_play s))] s)
        = [Stopped, Initializing, Detecting]"
proof -
  define r where "r = s\<lparr>isCameraOn := True, detectedColor := []\<rparr>"
  define s1 where "s1 = startCamera r (stopCameraStream r)"
  define s2 where "s2 = s1\<lparr>pending_getUserMedia := pending_getUserMedia s,
                         videoRef := Some (Some stream), trace := trace s1 @ [VideoPlay],
                         pending_play := pending_play s1 @ [closure_of r]\<rparr>"
  define s3 where "s3 = startCamera_playing (closure_of r) (s2\<lparr>pending_play := pending_play s\<rparr>)"
  have 1: "step ToggleCamera s = Inr s1"
    unfolding s1_def r_def using assms(1,2) by (rule step_ToggleCamera_on)
  have p1: "pending_getUserMedia s1 = pending_getUserMedia s @ [closure_of r]"
    and v1: "videoRef s1 \<noteq> None" and q1: "pending_play s1 = pending_play s"
    and st1: "status s1 = Initializing"
    using assms(2,3)
    by (simp_all add: s1_def r_def startCamera_requested stopCameraStream_videoRef
          split: option.splits)
  have 2: "step (GetUserMediaResolves (length (pending_getUserMedia s)) stream) s1 = Inr s2"
    unfolding s2_def using p1 v1 by (rule step_GetUserMediaResolves)
  have st2: "status s2 = Initializing"
    by (simp add: s2_def st1)
  have "pending_play s2 = pending_play s @ [closure_of r]"
    by (simp add: s2_def q1)
  then have 3: "step (PlayResolves (length (pending_play s))) s2 = Inr s3"
    unfolding s3_def by (rule step_PlayResolves)
  have st3: "status s3 = Detecting"
    by (simp add: s3_def startCamera_playing_def)
  show ?thesis
    using assms(4) by (simp add: 1 2 3 st1 st2 st3 mount_Stopped initial_def del: step.simps)
qed

text \<open>
  C7 fails on the code. The status starts as \<open>Ready\<close> (line 11), but the camera effect
  runs at mount, with the camera off, and its branch for a camera that is off sets
  \<open>Stopped\<close> (line 127): the first render's \<open>Ready\<close> is overwritten before any click. The
  first activation with permission granted goes through \<open>Ready\<close>, \<open>Stopped\<close>,
  \<open>Initializing\<close>, \<open>Detecting\<close>, not through \<open>Ready\<close>, \<open>Initializing\<close>, \<open>Detecting\<close>.
\<close>

theorem first_activation_passes_Stopped:
  "first_activation_statuses [0, 1] = [Ready, Stopped, Initializing, Detecting]
   \<and> first_activation_statuses [0, 1] \<noteq> [Ready, Initializing, Detecting]"
  by code_simp

text \<open>
  A timer whose function object closed over a false \<open>isLoading\<close> starts a call at every
  firing, also when \<open>isLoading\<close> is true in the state.
\<close>

lemma stale_guard:
  assumes "map_of (intervals s) h = Some c" "\<not> cap_isLoading c"
    "videoRef s \<noteq> None" "canvasRef s = Some True" "isLoading s"
  shows "\<exists>s'. step (IntervalFires h img) s = Inr s'
           \<and> pending_generate s' = pending_generate s @ [c]
           \<and> trace s' = trace s @ [DrawImage, GenerateContent img]"
  using assms
  by (auto simp: captureAndDetect_def Let_def committed_same_deps same_deps_def)

text \<open>
  C2 fails on the code. The timer calls the \<open>captureAndDetect\<close> of the render in which
  the camera was started (the effect that calls \<open>startCamera\<close> depends on \<open>isCameraOn\<close>
  and \<open>facingMode\<close> only), and that function reads the \<open>isLoading\<close> of that render, which
  is false. The timer fires, the call is in flight and \<open>isLoading\<close> is true; the timer
  fires again before the call has settled: a second frame is captured and a second call
  is made, so two calls are in flight.
\<close>

theorem guard_does_not_skip:
  "observe isLoading
     (session [ToggleCamera, GetUserMediaResolves 0 [0, 1], PlayResolves 0,
               IntervalFires 1 (js ''frame'')]) = Some True
   \<and> observe pending_generate
       (session [ToggleCamera, GetUserMediaResolves 0 [0, 1], PlayResolves 0,
                 IntervalFires 1 (js ''frame''), IntervalFires 1 (js ''frame2'')])
     = Some [\<lparr>cap_isLoading = False, cap_detectedColor = []\<rparr>,
             \<lparr>cap_isLoading = False, cap_detectedColor = []\<rparr>]
   \<and> observe trace
       (session [ToggleCamera, GetUserMediaResolves 0 [0, 1], PlayResolves 0,
                 IntervalFires 1 (js ''frame''), IntervalFires 1 (js ''frame2'')])
     = Some [GetUserMedia Environment, VideoPlay, SetInterval 1,
             DrawImage, GenerateContent (js ''frame''),
             DrawImage, GenerateContent (js ''frame2'')]"
  by code_simp

text \<open>
  C5 fails on the code, by the same stale function object: the comparison is with the
  \<open>detectedColor\<close> of the render in which the camera was started, not with the label on
  display. After a toggle that value is the empty string, so while \<open>Blue\<close> is displayed
  the result \<open>BLUE\<close>, equal to it but for case, replaces it. After a switch of the
  camera while \<open>Red\<close> was displayed that value is \<open>Red\<close>, so once \<open>Blue\<close> is displayed the
  result \<open>Red\<close>, which differs from it, does not replace it.
\<close>

theorem comparison_uses_stale_label:
  "observe detectedColor
     (session [ToggleCamera, GetUserMediaResolves 0 [0, 1], PlayResolves 0,
               IntervalFires 1 (js ''frame''),
               GenerateContentSettles 0 (Response (Some (js ''Blue'')))]) = Some (js ''Blue'')
   \<and> toLowerCase (js ''BLUE'') = toLowerCase (js ''Blue'')
   \<and> observe detectedColor
       (session [ToggleCamera, GetUserMediaResolves 0 [0, 1], PlayResolves 0,
                 IntervalFires 1 (js ''frame''),
                 GenerateContentSettles 0 (Response (Some (js ''Blue''))),
                 IntervalFires 1 (js ''frame''),
                 GenerateContentSettles 0 (Response (Some (js ''BLUE'')))]) = Some (js ''BLUE'')
   \<and> observe detectedColor
       (session [ToggleCamera, GetUserMediaResolves 0 [0, 1], PlayResolves 0,
                 IntervalFires 1 (js ''frame''),
                 GenerateContentSettles 0 (Response (Some (js ''Red''))),
                 SwitchCamera, GetUserMediaResolves 0 [2, 3], PlayResolves 0,
                 IntervalFires 2 (js ''frame''),
                 GenerateContentSettles 0 (Response (Some (js ''Blue'')))]) = Some (js ''Blue'')
   \<and> toLowerCase (js ''Red'') \<noteq> toLowerCase (js ''Blue'')
   \<and> observe detectedColor
       (session [ToggleCamera, GetUserMediaResolves 0 [0, 1], PlayResolves 0,
                 IntervalFires 1 (js ''frame''),
                 GenerateContentSettles 0 (Response (Some (js ''Red''))),
                 SwitchCamera, GetUserMediaResolves 0 [2, 3], PlayResolves 0,
                 IntervalFires 2 (js ''frame''),
                 GenerateContentSettles 0 (Response (Some (js ''Blue''))),
                 IntervalFires 2 (js ''frame''),
                 GenerateContentSettles 0 (Response (Some (js ''Red'')))]) = Some (js ''Blue'')"
  by code_simp

end
